theory Spec2Isabelle
  imports Complex_Main "HOL-Library.AList" "HOL-Library.Word"
begin

section \<open>The overlay registry: \<open>GlobalImgui\<close>\<close>

text \<open>
  The registry of \<^verbatim>\<open>blender_imgui.py\<close> is the class \<^verbatim>\<open>GlobalImgui\<close>. Its instance
  attributes are created at two places: \<^verbatim>\<open>__init__\<close> creates \<^verbatim>\<open>imgui_ctx\<close> only, and
  \<^verbatim>\<open>init_imgui\<close> creates the others. An attribute that has not been created yet is
  \<open>None\<close> on the outer \<open>option\<close> of its field, and reading it raises
  \<^verbatim>\<open>AttributeError\<close>. The field \<open>imgui_ctx\<close> always exists; its \<open>None\<close> is Python's.

  A Python \<^verbatim>\<open>dict\<close> keeps its keys in insertion order, so both dictionaries are
  association lists: \<open>d[k] = v\<close> is \<^const>\<open>AList.update\<close> (a new key goes to the end, an
  old key keeps its place), \<open>del d[k]\<close> is \<^const>\<open>AList.delete\<close>, \<open>k in d\<close> is
  membership in the list of keys and \<open>d.values()\<close> is \<open>map snd\<close>.

  Callbacks and space types are opaque to the registry (it stores and compares them),
  hence the type parameters \<open>'cb\<close> and \<open>'sp\<close>.
\<close>

datatype py_error = AttributeError | TypeError

datatype renderer = BlenderImguiRenderer

record ('cb, 'sp) GlobalImgui =
  imgui_ctx :: "nat option"
  imgui_backend :: "renderer option"
  draw_handlers :: "('sp \<times> nat) list option"
  callbacks :: "(int \<times> ('cb \<times> 'sp)) list option"
  next_callback_id :: "int option"

text \<open>
  What the registry touches outside itself: the draw handlers installed on the host's
  space types (\<^verbatim>\<open>SpaceType.draw_handler_add\<close> and \<^verbatim>\<open>draw_handler_remove\<close>), the GUI
  library's live contexts (\<^verbatim>\<open>imgui.create_context\<close>, \<^verbatim>\<open>imgui.destroy_context\<close>) and the
  console. A handler and a context are named by a number drawn from a counter, so that
  each call of the host returns a new object. The host calls are taken to succeed.
\<close>

datatype message = Invalid_handle int

record 'sp host =
  installed :: "('sp \<times> nat) list"
  next_handler :: nat
  contexts :: "nat list"
  next_context :: nat
  printed :: "message list"

type_synonym ('cb, 'sp) process = "('cb, 'sp) GlobalImgui \<times> 'sp host"

text \<open>\<^verbatim>\<open>GlobalImgui()\<close>, as \<^verbatim>\<open>GlobalImgui.get\<close> builds it on its first call, in a host
  with nothing installed.\<close>

definition new_GlobalImgui :: "('cb, 'sp) GlobalImgui" where
  "new_GlobalImgui =
     \<lparr>imgui_ctx = None, imgui_backend = None, draw_handlers = None,
      callbacks = None, next_callback_id = None\<rparr>"

definition new_host :: "'sp host" where
  "new_host =
     \<lparr>installed = [], next_handler = 0, contexts = [], next_context = 0, printed = []\<rparr>"

definition start :: "('cb, 'sp) process" where
  "start = (new_GlobalImgui, new_host)"

subsection \<open>Host calls\<close>

definition create_context :: "'sp host \<Rightarrow> nat \<times> 'sp host" where
  "create_context h =
     (next_context h,
      h\<lparr>contexts := contexts h @ [next_context h], next_context := Suc (next_context h)\<rparr>)"

definition destroy_context :: "nat option \<Rightarrow> 'sp host \<Rightarrow> 'sp host" where
  "destroy_context c h =
     (case c of None \<Rightarrow> h | Some i \<Rightarrow> h\<lparr>contexts := removeAll i (contexts h)\<rparr>)"

definition draw_handler_add :: "'sp \<Rightarrow> 'sp host \<Rightarrow> nat \<times> 'sp host" where
  "draw_handler_add sp h =
     (next_handler h,
      h\<lparr>installed := installed h @ [(sp, next_handler h)],
        next_handler := Suc (next_handler h)\<rparr>)"

definition draw_handler_remove :: "'sp \<Rightarrow> nat \<Rightarrow> 'sp host \<Rightarrow> 'sp host" where
  "draw_handler_remove sp d h = h\<lparr>installed := removeAll (sp, d) (installed h)\<rparr>"

definition print_invalid :: "int \<Rightarrow> 'sp host \<Rightarrow> 'sp host" where
  "print_invalid handle h = h\<lparr>printed := printed h @ [Invalid_handle handle]\<rparr>"

subsection \<open>\<^verbatim>\<open>init_imgui\<close> and \<^verbatim>\<open>shutdown_imgui\<close>\<close>

text \<open>
  \<^verbatim>\<open>init_imgui\<close> also builds the renderer and fills the key map of the GUI library
  (\<^verbatim>\<open>setup_key_map\<close>); neither is read by the registry's bookkeeping.
\<close>

definition init_imgui :: "('cb, 'sp) process \<Rightarrow> ('cb, 'sp) process" where
  "init_imgui w =
     (case w of (g, h) \<Rightarrow>
        (case create_context h of (c, h') \<Rightarrow>
           (g\<lparr>imgui_ctx := Some c, imgui_backend := Some BlenderImguiRenderer,
              draw_handlers := Some [], callbacks := Some [],
              next_callback_id := Some 0\<rparr>, h')))"

text \<open>The loop of \<^verbatim>\<open>shutdown_imgui\<close> over \<^verbatim>\<open>self.draw_handlers.items()\<close>.\<close>

fun remove_handlers :: "('sp \<times> nat) list \<Rightarrow> 'sp host \<Rightarrow> 'sp host" where
  "remove_handlers [] h = h"
| "remove_handlers ((sp, d) # rest) h = remove_handlers rest (draw_handler_remove sp d h)"

definition shutdown_imgui :: "('cb, 'sp) process \<Rightarrow> py_error option \<times> ('cb, 'sp) process" where
  "shutdown_imgui w =
     (case w of (g, h) \<Rightarrow>
        (case draw_handlers g of
           None \<Rightarrow> (Some AttributeError, (g, h))
         | Some dh \<Rightarrow>
             (None, (g\<lparr>imgui_ctx := None\<rparr>,
                     destroy_context (imgui_ctx g) (remove_handlers dh h)))))"

subsection \<open>\<^verbatim>\<open>handler_add\<close> and \<^verbatim>\<open>handler_remove\<close>\<close>

text \<open>
  Each function returns what the call gives back (\<open>Inl\<close> for a raised exception) and the
  process as the call leaves it; a call that raises leaves the writes it made before.
\<close>

definition handler_add ::
  "'cb \<Rightarrow> 'sp \<Rightarrow> ('cb, 'sp) process \<Rightarrow> (py_error + int) \<times> ('cb, 'sp) process" where
  "handler_add callback sp w =
     (case (if imgui_ctx (fst w) = None then init_imgui w else w) of (g, h) \<Rightarrow>
        (case draw_handlers g of
           None \<Rightarrow> (Inl AttributeError, (g, h))
         | Some dh \<Rightarrow>
             (case (if sp \<notin> fst ` set dh
                    then (case draw_handler_add sp h of (d, h') \<Rightarrow>
                            (g\<lparr>draw_handlers := Some (AList.update sp d dh)\<rparr>, h'))
                    else (g, h)) of (g1, h1) \<Rightarrow>
                (case next_callback_id g1 of
                   None \<Rightarrow> (Inl AttributeError, (g1, h1))
                 | Some handle \<Rightarrow>
                     (case callbacks g1 of
                        None \<Rightarrow>
                          (Inl AttributeError,
                           (g1\<lparr>next_callback_id := Some (handle + 1)\<rparr>, h1))
                      | Some cbs \<Rightarrow>
                          (Inr handle,
                           (g1\<lparr>next_callback_id := Some (handle + 1),
                               callbacks := Some (AList.update handle (callback, sp) cbs)\<rparr>,
                            h1)))))))"

definition handler_remove ::
  "int \<Rightarrow> ('cb, 'sp) process \<Rightarrow> py_error option \<times> ('cb, 'sp) process" where
  "handler_remove handle w =
     (case w of (g, h) \<Rightarrow>
        (case callbacks g of
           None \<Rightarrow> (Some AttributeError, (g, h))
         | Some cbs \<Rightarrow>
             if handle \<notin> fst ` set cbs then (None, (g, print_invalid handle h))
             else if AList.delete handle cbs = []
               then shutdown_imgui (g\<lparr>callbacks := Some (AList.delete handle cbs)\<rparr>, h)
               else (None, (g\<lparr>callbacks := Some (AList.delete handle cbs)\<rparr>, h))))"

subsection \<open>\<^verbatim>\<open>draw\<close>\<close>

text \<open>
  \<^verbatim>\<open>draw\<close> is what an installed draw handler runs, with the space type it was installed
  for. \<open>context\<close> is \<^verbatim>\<open>bpy.context\<close> at that moment; the registry reads its region size and
  the interface scale and hands the context itself to the callbacks. The calls it makes
  are listed in order; a callback is opaque, and it is taken not to call back into the
  registry while the frame is built.
\<close>

record 'x bpy_context =
  region_width :: int
  region_height :: int
  ui_scale :: rat
  ident :: 'x

datatype ('cb, 'x) frame_call =
    Set_display_size int int
  | Set_font_global_scale rat
  | New_frame
  | Invoke 'cb "'x bpy_context"
  | End_frame
  | Imgui_render
  | Backend_render

text \<open>The loop of \<^verbatim>\<open>draw\<close> over \<^verbatim>\<open>self.callbacks.values()\<close>.\<close>

fun draw_callbacks ::
  "('cb \<times> 'sp) list \<Rightarrow> 'sp \<Rightarrow> 'x bpy_context \<Rightarrow> ('cb, 'x) frame_call list" where
  "draw_callbacks [] cur ctx = []"
| "draw_callbacks ((cb, sp) # rest) cur ctx =
     (if sp = cur then Invoke cb ctx # draw_callbacks rest cur ctx
      else draw_callbacks rest cur ctx)"

definition draw ::
  "('cb, 'sp) GlobalImgui \<Rightarrow> 'sp \<Rightarrow> 'x bpy_context \<Rightarrow> py_error option \<times> ('cb, 'x) frame_call list" where
  "draw g cur ctx =
     (let pre = [Set_display_size (region_width ctx) (region_height ctx),
                 Set_font_global_scale (ui_scale ctx), New_frame]
      in case callbacks g of
           None \<Rightarrow> (Some AttributeError, pre)
         | Some cbs \<Rightarrow>
             (let calls = pre @ draw_callbacks (map snd cbs) cur ctx @ [End_frame, Imgui_render]
              in case imgui_backend g of
                   None \<Rightarrow> (Some AttributeError, calls)
                 | Some b \<Rightarrow> (None, calls @ [Backend_render])))"

subsection \<open>Sequences of calls\<close>

text \<open>
  A client of the registry calls \<^verbatim>\<open>imgui_handler_add\<close> and \<^verbatim>\<open>imgui_handler_remove\<close> in
  some order. \<open>exec\<close> runs such a sequence and returns what each call gave back, and the
  process at the end. A call that raised is followed by the next call on the process it
  left.
\<close>

datatype ('cb, 'sp) call = Handler_add 'cb 'sp | Handler_remove int

datatype outcome = Handle int | Done | Raised py_error

definition step :: "('cb, 'sp) call \<Rightarrow> ('cb, 'sp) process \<Rightarrow> outcome \<times> ('cb, 'sp) process" where
  "step c w =
     (case c of
        Handler_add cb sp \<Rightarrow>
          (case handler_add cb sp w of
             (Inl e, w') \<Rightarrow> (Raised e, w')
           | (Inr handle, w') \<Rightarrow> (Handle handle, w'))
      | Handler_remove handle \<Rightarrow>
          (case handler_remove handle w of
             (Some e, w') \<Rightarrow> (Raised e, w')
           | (None, w') \<Rightarrow> (Done, w')))"

fun exec :: "('cb, 'sp) process \<Rightarrow> ('cb, 'sp) call list \<Rightarrow> outcome list \<times> ('cb, 'sp) process" where
  "exec w [] = ([], w)"
| "exec w (c # cs) =
     (case step c w of (out, w') \<Rightarrow>
        (case exec w' cs of (outs, w'') \<Rightarrow> (out # outs, w'')))"

text \<open>The handles a sequence of calls returned, in order.\<close>

fun handles :: "outcome list \<Rightarrow> int list" where
  "handles [] = []"
| "handles (Handle i # outs) = i # handles outs"
| "handles (out # outs) = handles outs"

text \<open>The registration set, empty while the attribute does not exist.\<close>

definition registrations :: "('cb, 'sp) GlobalImgui \<Rightarrow> (int \<times> ('cb \<times> 'sp)) list" where
  "registrations g = (case callbacks g of None \<Rightarrow> [] | Some cbs \<Rightarrow> cbs)"

text \<open>The callbacks a dispatch invoked, each with its argument, in order.\<close>

fun invoked :: "('cb, 'x) frame_call list \<Rightarrow> ('cb \<times> 'x bpy_context) list" where
  "invoked [] = []"
| "invoked (Invoke cb ctx # cs) = (cb, ctx) # invoked cs"
| "invoked (c # cs) = invoked cs"

text \<open>
  \<open>stays_active w cs\<close>: running \<open>cs\<close> from \<open>w\<close>, the GUI context exists after every call,
  so no call of \<open>cs\<close> tears the registry down.
\<close>

fun stays_active :: "('cb, 'sp) process \<Rightarrow> ('cb, 'sp) call list \<Rightarrow> bool" where
  "stays_active w [] = True"
| "stays_active w (c # cs) =
     (case step c w of (out, w') \<Rightarrow> imgui_ctx (fst w') \<noteq> None \<and> stays_active w' cs)"

text \<open>The handle the next registration gets: the counter while the context exists,
  and 0 otherwise, since the registration then runs \<^verbatim>\<open>init_imgui\<close> first.\<close>

definition next_handle :: "('cb, 'sp) GlobalImgui \<Rightarrow> int" where
  "next_handle g =
     (case imgui_ctx g of
        None \<Rightarrow> 0
      | Some c \<Rightarrow> (case next_callback_id g of None \<Rightarrow> 0 | Some n \<Rightarrow> n))"

text \<open>The number of registrations a sequence of calls makes.\<close>

fun registers :: "('cb, 'sp) call list \<Rightarrow> nat" where
  "registers [] = 0"
| "registers (Handler_add cb sp # cs) = Suc (registers cs)"
| "registers (Handler_remove k # cs) = registers cs"

text \<open>
  What holds of the process after every sequence of calls. Without a context nothing is
  registered and nothing is installed. With a context, the three attributes of
  \<^verbatim>\<open>init_imgui\<close> exist, the registration map is not empty, its handles are in increasing
  order and below the counter, and the map of draw handlers lists what is installed.
\<close>

definition registry_inv :: "('cb, 'sp) process \<Rightarrow> bool" where
  "registry_inv w =
     (case w of (g, h) \<Rightarrow>
        (case imgui_ctx g of
           None \<Rightarrow> registrations g = [] \<and> installed h = []
         | Some c \<Rightarrow>
             (case (draw_handlers g, callbacks g, next_callback_id g) of
                (Some dh, Some cbs, Some n) \<Rightarrow>
                  cbs \<noteq> [] \<and> sorted_wrt (<) (map fst cbs)
                  \<and> list_all (\<lambda>k. 0 \<le> k \<and> k < n) (map fst cbs) \<and> 0 \<le> n
                  \<and> installed h = dh \<and> dh \<noteq> [] \<and> imgui_backend g \<noteq> None
              | _ \<Rightarrow> False)))"

section \<open>The state of the GUI library: \<^verbatim>\<open>imgui.get_io()\<close>\<close>

text \<open>
  The fields of the GUI library's \<^verbatim>\<open>io\<close> object that this file reads and writes. Python
  floats are modelled as rationals, with exact arithmetic; \<open>py_int\<close> is Python's \<^verbatim>\<open>int()\<close> on
  them, which rounds towards zero. The arrays \<^verbatim>\<open>keys_down\<close> and \<^verbatim>\<open>mouse_down\<close> are functions
  from the index; the indices that the code uses (the key constants of the GUI library,
  129 to 135, and 0 to 2) are taken to lie within the arrays.
\<close>

definition py_int :: "rat \<Rightarrow> int" where
  "py_int r = (if 0 \<le> r then \<lfloor>r\<rfloor> else \<lceil>r\<rceil>)"

record imgui_io =
  display_size :: "rat \<times> rat"
  display_fb_scale :: "rat \<times> rat"
  mouse_pos :: "int \<times> int"
  mouse_down :: "nat \<Rightarrow> bool"
  mouse_wheel :: int
  keys_down :: "nat \<Rightarrow> bool"
  key_ctrl :: bool
  key_alt :: bool
  key_shift :: bool
  key_super :: bool
  input_characters :: "nat list"

section \<open>The draw translator: \<^verbatim>\<open>BlenderImguiRenderer.render\<close>\<close>

subsection \<open>Draw data\<close>

type_synonym vec4 = "rat \<times> rat \<times> rat \<times> rat"

type_synonym rect = "int \<times> int \<times> int \<times> int"

text \<open>A draw command; \<^verbatim>\<open>clip_rect\<close> is \<open>(x0, y0, x1, y1)\<close>, with the origin at the top left.\<close>

record 'tex draw_cmd =
  clip_rect :: vec4
  elem_count :: nat
  texture_id :: 'tex

text \<open>
  Modelled from the spec: the vertex of the GUI library, whose declaration is not in this
  repository. The spec (section 3) gives a vertex a position, a texture coordinate and a
  packed colour; the code reads the first two floats of a row as the position, the next
  two as the texture coordinate and the bytes from offset 16 on as the colour, which is
  a vertex of 20 bytes.
\<close>

record ImDrawVert =
  pos :: "rat \<times> rat"
  uv :: "rat \<times> rat"
  col :: "8 word list"

definition VERTEX_SIZE :: nat where
  "VERTEX_SIZE = 20"

text \<open>
  A command list. \<^verbatim>\<open>idx_buffer_data\<close> and \<^verbatim>\<open>vtx_buffer_data\<close> are addresses in the source; here
  each is what the code reads at its address: the memory as a sequence of C ints, and the
  memory as a sequence of vertices.
\<close>

record 'tex cmd_list =
  idx_buffer_size :: nat
  idx_buffer_data :: "int list"
  vtx_buffer_size :: nat
  vtx_buffer_data :: "ImDrawVert list"
  commands :: "'tex draw_cmd list"

record 'tex draw_data =
  commands_lists :: "'tex cmd_list list"

text \<open>
  Modelled from the spec: \<^verbatim>\<open>draw_data.scale_clip_rects\<close> of the GUI library, which is not in
  this repository. The spec (section 4.1, side effect 1) has it apply the scale factor to
  all clip rectangles of the snapshot: the horizontal factor to \<open>x0\<close> and \<open>x1\<close>, the vertical
  one to \<open>y0\<close> and \<open>y1\<close>.
\<close>

definition scale_rect :: "rat \<Rightarrow> rat \<Rightarrow> vec4 \<Rightarrow> vec4" where
  "scale_rect sx sy r = (case r of (x, y, z, w) \<Rightarrow> (x * sx, y * sy, z * sx, w * sy))"

definition scale_clip_rects :: "rat \<Rightarrow> rat \<Rightarrow> 'tex draw_data \<Rightarrow> 'tex draw_data" where
  "scale_clip_rects sx sy dd =
     dd\<lparr>commands_lists :=
          map (\<lambda>cl. cl\<lparr>commands :=
                 map (\<lambda>c. c\<lparr>clip_rect := scale_rect sx sy (clip_rect c)\<rparr>) (commands cl)\<rparr>)
              (commands_lists dd)\<rparr>"

subsection \<open>The host's GPU state\<close>

text \<open>
  The state of the host that \<^verbatim>\<open>render\<close> reads and writes through \<^verbatim>\<open>gpu.state\<close>, and the
  list of the calls made to the host, oldest first. A batch is what
  \<^verbatim>\<open>batch_for_shader\<close> is given: the primitive type, the three vertex attribute arrays and
  the indices. The host calls are taken to succeed.
\<close>

record batch =
  b_type :: string
  b_position :: "(rat \<times> rat) list"
  b_uv :: "(rat \<times> rat) list"
  b_color :: "rat list list"
  b_indices :: "int list"

datatype 'tex gpu_call =
    Blend_set string
  | Face_culling_set string
  | Scissor_test_set bool
  | Viewport_set int int int int
  | Shader_bind
  | Uniform_float string "rat list"
  | Uniform_int string int
  | Scissor_set int int int int
  | Uniform_sampler string 'tex
  | Batch_draw batch

record 'tex gpu =
  blend :: string
  face_culling :: string
  scissor_test :: bool
  viewport :: rect
  scissor :: rect
  calls :: "'tex gpu_call list"

definition blend_get :: "'tex gpu \<Rightarrow> string" where
  "blend_get g = blend g"

definition blend_set :: "string \<Rightarrow> 'tex gpu \<Rightarrow> 'tex gpu" where
  "blend_set m g = g\<lparr>blend := m, calls := calls g @ [Blend_set m]\<rparr>"

definition face_culling_set :: "string \<Rightarrow> 'tex gpu \<Rightarrow> 'tex gpu" where
  "face_culling_set m g = g\<lparr>face_culling := m, calls := calls g @ [Face_culling_set m]\<rparr>"

definition scissor_test_set :: "bool \<Rightarrow> 'tex gpu \<Rightarrow> 'tex gpu" where
  "scissor_test_set b g = g\<lparr>scissor_test := b, calls := calls g @ [Scissor_test_set b]\<rparr>"

definition viewport_set :: "int \<Rightarrow> int \<Rightarrow> int \<Rightarrow> int \<Rightarrow> 'tex gpu \<Rightarrow> 'tex gpu" where
  "viewport_set x y w h g =
     g\<lparr>viewport := (x, y, w, h), calls := calls g @ [Viewport_set x y w h]\<rparr>"

definition scissor_set :: "int \<Rightarrow> int \<Rightarrow> int \<Rightarrow> int \<Rightarrow> 'tex gpu \<Rightarrow> 'tex gpu" where
  "scissor_set x y w h g =
     g\<lparr>scissor := (x, y, w, h), calls := calls g @ [Scissor_set x y w h]\<rparr>"

text \<open>A call that changes none of the fields above: binding the shader, setting a
  uniform or a sampler, drawing a batch.\<close>

definition host_call :: "'tex gpu_call \<Rightarrow> 'tex gpu \<Rightarrow> 'tex gpu" where
  "host_call c g = g\<lparr>calls := calls g @ [c]\<rparr>"

subsection \<open>\<^verbatim>\<open>render\<close>\<close>

text \<open>
  The two arrays that \<^verbatim>\<open>render\<close> builds for a command list. \<^verbatim>\<open>imgui.INDEX_SIZE\<close> is a
  constant of the GUI library that is not in this repository, so it is a parameter. The
  index array has \<^verbatim>\<open>idx_buffer_size * INDEX_SIZE // 4\<close> C ints. The vertex array has
  \<^verbatim>\<open>vtx_buffer_size * VERTEX_SIZE // 4\<close> floats in rows of \<^verbatim>\<open>VERTEX_SIZE // 4\<close>.
\<close>

definition idx_buffer_np :: "nat \<Rightarrow> 'tex cmd_list \<Rightarrow> int list" where
  "idx_buffer_np INDEX_SIZE cl =
     take (idx_buffer_size cl * INDEX_SIZE div 4) (idx_buffer_data cl)"

definition vtx_buffer_shaped :: "'tex cmd_list \<Rightarrow> ImDrawVert list" where
  "vtx_buffer_shaped cl =
     take ((vtx_buffer_size cl * VERTEX_SIZE div 4) div (VERTEX_SIZE div 4))
       (vtx_buffer_data cl)"

text \<open>One row of \<^verbatim>\<open>colors\<close>: the colour bytes of a vertex as floats, divided by 255.\<close>

definition vertex_color :: "ImDrawVert \<Rightarrow> rat list" where
  "vertex_color v = map (\<lambda>b. of_nat (unat b) / 255) (col v)"

text \<open>
  The inner loop, over \<^verbatim>\<open>commands.commands\<close>, with \<^verbatim>\<open>idx_buffer_offset\<close> as it stands before
  the command. A slice \<^verbatim>\<open>a[i:i + n]\<close> of an array is \<open>take n (drop i a)\<close>.
\<close>

fun render_commands ::
  "int \<Rightarrow> int list \<Rightarrow> ImDrawVert list \<Rightarrow> 'tex draw_cmd list \<Rightarrow> nat \<Rightarrow> 'tex gpu \<Rightarrow> 'tex gpu" where
  "render_commands fb_height idx vtx [] idx_buffer_offset g = g"
| "render_commands fb_height idx vtx (command # rest) idx_buffer_offset g =
     (case clip_rect command of (x, y, z, w) \<Rightarrow>
        (let g1 = scissor_set (py_int x) (py_int (of_int fb_height - w)) (py_int (z - x))
                    (py_int (w - y)) g;
             vertices = map pos vtx;
             uvs = map uv vtx;
             colors = map vertex_color vtx;
             indices = take (elem_count command) (drop idx_buffer_offset idx);
             g2 = host_call (Uniform_sampler ''Texture'' (texture_id command)) g1;
             g3 = host_call (Batch_draw \<lparr>b_type = ''TRIS'', b_position = vertices, b_uv = uvs,
                                        b_color = colors, b_indices = indices\<rparr>) g2
         in render_commands fb_height idx vtx rest (idx_buffer_offset + elem_count command) g3))"

text \<open>The outer loop, over \<^verbatim>\<open>draw_data.commands_lists\<close>.\<close>

fun render_lists :: "nat \<Rightarrow> int \<Rightarrow> 'tex cmd_list list \<Rightarrow> 'tex gpu \<Rightarrow> 'tex gpu" where
  "render_lists INDEX_SIZE fb_height [] g = g"
| "render_lists INDEX_SIZE fb_height (cl # rest) g =
     render_lists INDEX_SIZE fb_height rest
       (render_commands fb_height (idx_buffer_np INDEX_SIZE cl) (vtx_buffer_shaped cl)
          (commands cl) 0 g)"

definition fb_width :: "imgui_io \<Rightarrow> int" where
  "fb_width io = py_int (fst (display_size io) * fst (display_fb_scale io))"

definition fb_height :: "imgui_io \<Rightarrow> int" where
  "fb_height io = py_int (snd (display_size io) * snd (display_fb_scale io))"

text \<open>
  \<^verbatim>\<open>render\<close> returns the state of the host after the call. It also leaves the clip
  rectangles of \<^verbatim>\<open>draw_data\<close> scaled; the draw data is built anew for every frame.
\<close>

definition render :: "nat \<Rightarrow> imgui_io \<Rightarrow> 'tex draw_data \<Rightarrow> 'tex gpu \<Rightarrow> 'tex gpu" where
  "render INDEX_SIZE io draw_data g =
     (case display_size io of (display_width, display_height) \<Rightarrow>
        (if fb_width io = 0 \<or> fb_height io = 0 then g
         else
           (let dd = scale_clip_rects (fst (display_fb_scale io)) (snd (display_fb_scale io))
                       draw_data;
                last_blend = blend_get g;
                g1 = blend_set ''ALPHA'' g;
                g2 = face_culling_set ''NONE'' g1;
                g3 = scissor_test_set True g2;
                g4 = viewport_set 0 0 (fb_width io) (fb_height io) g3;
                ortho_projection =
                  [2 / display_width, 0, 0, 0,
                   0, 2 / - display_height, 0, 0,
                   0, 0, - 1, 0,
                   - 1, 1, 0, 1];
                g5 = host_call Shader_bind g4;
                g6 = host_call (Uniform_float ''ProjMtx'' ortho_projection) g5;
                g7 = host_call (Uniform_int ''Texture'' 0) g6;
                g8 = render_lists INDEX_SIZE (fb_height io) (commands_lists dd) g7;
                g9 = blend_set last_blend g8
            in scissor_test_set False g9)))"

subsection \<open>What a call of \<^verbatim>\<open>render\<close> did\<close>

text \<open>The calls made between two states of the host.\<close>

definition emitted :: "'tex gpu \<Rightarrow> 'tex gpu \<Rightarrow> 'tex gpu_call list" where
  "emitted g g' = drop (length (calls g)) (calls g')"

text \<open>The batches drawn by a list of calls, in order.\<close>

fun draws :: "'tex gpu_call list \<Rightarrow> batch list" where
  "draws [] = []"
| "draws (Batch_draw b # cs) = b # draws cs"
| "draws (c # cs) = draws cs"

text \<open>The scissor rectangle in force at each draw of a list of calls, in order, given
  the rectangle in force before the first call.\<close>

fun scissor_at_draws :: "rect \<Rightarrow> 'tex gpu_call list \<Rightarrow> rect list" where
  "scissor_at_draws cur [] = []"
| "scissor_at_draws cur (Scissor_set x y w h # cs) = scissor_at_draws (x, y, w, h) cs"
| "scissor_at_draws cur (Batch_draw b # cs) = cur # scissor_at_draws cur cs"
| "scissor_at_draws cur (c # cs) = scissor_at_draws cur cs"

text \<open>The clip rectangles of a snapshot, in the order of its lists and commands.\<close>

definition clip_rects :: "'tex draw_data \<Rightarrow> vec4 list" where
  "clip_rects dd = concat (map (\<lambda>cl. map clip_rect (commands cl)) (commands_lists dd))"

text \<open>The rectangle that \<^verbatim>\<open>render\<close> passes to \<^verbatim>\<open>scissor_set\<close> for a clip rectangle.\<close>

definition scissor_rect :: "int \<Rightarrow> vec4 \<Rightarrow> rect" where
  "scissor_rect fbh r =
     (case r of (x, y, z, w) \<Rightarrow>
        (py_int x, py_int (of_int fbh - w), py_int (z - x), py_int (w - y)))"

text \<open>
  The scissor rectangle in the words of the spec (section 4.1, step 5): the clip rectangle
  intersected with the framebuffer \<open>[0, fbw] \<times> [0, fbh]\<close>, then turned from the top-left origin
  to the bottom-left one.
\<close>

definition spec_scissor :: "int \<Rightarrow> int \<Rightarrow> vec4 \<Rightarrow> rect" where
  "spec_scissor fbw fbh r =
     (case r of (x0, y0, x1, y1) \<Rightarrow>
        scissor_rect fbh (max 0 x0, max 0 y0, min (of_int fbw) x1, min (of_int fbh) y1))"

text \<open>A clip rectangle that lies fully inside the framebuffer.\<close>

definition inside :: "int \<Rightarrow> int \<Rightarrow> vec4 \<Rightarrow> bool" where
  "inside fbw fbh r =
     (case r of (x0, y0, x1, y1) \<Rightarrow>
        0 \<le> x0 \<and> x0 \<le> x1 \<and> x1 \<le> of_int fbw \<and> 0 \<le> y0 \<and> y0 \<le> y1 \<and> y1 \<le> of_int fbh)"

text \<open>
  The index slice of the \<open>i\<close>-th command of a list: \<open>elem_count\<close> indices, from the offset
  that is the sum of the \<open>elem_count\<close> of the commands before it.
\<close>

definition index_slice :: "int list \<Rightarrow> 'tex draw_cmd list \<Rightarrow> nat \<Rightarrow> int list" where
  "index_slice idx cmds i =
     take (elem_count (cmds ! i)) (drop (sum_list (map elem_count (take i cmds))) idx)"

text \<open>The batch with the whole vertex buffer of a command list and the index slice of
  its \<open>i\<close>-th command.\<close>

definition whole_buffer_batch :: "nat \<Rightarrow> 'tex cmd_list \<Rightarrow> nat \<Rightarrow> batch" where
  "whole_buffer_batch INDEX_SIZE cl i =
     \<lparr>b_type = ''TRIS'',
      b_position = map pos (take (vtx_buffer_size cl) (vtx_buffer_data cl)),
      b_uv = map uv (take (vtx_buffer_size cl) (vtx_buffer_data cl)),
      b_color = map vertex_color (take (vtx_buffer_size cl) (vtx_buffer_data cl)),
      b_indices = index_slice (idx_buffer_np INDEX_SIZE cl) (commands cl) i\<rparr>"

text \<open>The calls of the two loops and of the lines before them, as lists.\<close>

fun commands_calls ::
  "int \<Rightarrow> int list \<Rightarrow> ImDrawVert list \<Rightarrow> 'tex draw_cmd list \<Rightarrow> nat \<Rightarrow> 'tex gpu_call list" where
  "commands_calls fbh idx vtx [] off = []"
| "commands_calls fbh idx vtx (c # rest) off =
     (case scissor_rect fbh (clip_rect c) of (sx, sy, sw, sh) \<Rightarrow>
        [Scissor_set sx sy sw sh, Uniform_sampler ''Texture'' (texture_id c),
         Batch_draw \<lparr>b_type = ''TRIS'', b_position = map pos vtx, b_uv = map uv vtx,
                     b_color = map vertex_color vtx,
                     b_indices = take (elem_count c) (drop off idx)\<rparr>])
     @ commands_calls fbh idx vtx rest (off + elem_count c)"

fun lists_calls :: "nat \<Rightarrow> int \<Rightarrow> 'tex cmd_list list \<Rightarrow> 'tex gpu_call list" where
  "lists_calls INDEX_SIZE fbh [] = []"
| "lists_calls INDEX_SIZE fbh (cl # rest) =
     commands_calls fbh (idx_buffer_np INDEX_SIZE cl) (vtx_buffer_shaped cl) (commands cl) 0
     @ lists_calls INDEX_SIZE fbh rest"

definition prologue :: "imgui_io \<Rightarrow> 'tex gpu_call list" where
  "prologue io =
     [Blend_set ''ALPHA'', Face_culling_set ''NONE'', Scissor_test_set True,
      Viewport_set 0 0 (fb_width io) (fb_height io), Shader_bind,
      Uniform_float ''ProjMtx''
        [2 / fst (display_size io), 0, 0, 0,
         0, 2 / - snd (display_size io), 0, 0,
         0, 0, - 1, 0,
         - 1, 1, 0, 1],
      Uniform_int ''Texture'' 0]"

section \<open>The input translator: \<^verbatim>\<open>ImguiBasedOperator.modal_imgui\<close>\<close>

text \<open>
  A host event, with the fields that \<^verbatim>\<open>modal_imgui\<close> reads; \<^verbatim>\<open>unicode\<close> is a string, here the
  list of its code points.
\<close>

record event =
  ev_type :: string
  ev_value :: string
  mouse_region_x :: int
  mouse_region_y :: int
  unicode :: "nat list"

text \<open>
  The class attribute \<^verbatim>\<open>key_map\<close>. The key constants of the GUI library (\<^verbatim>\<open>imgui.KEY_TAB\<close> and
  the others) are not in this repository: \<open>KEY ''TAB''\<close> stands for \<^verbatim>\<open>imgui.KEY_TAB\<close>, and \<open>KEY\<close>
  is a parameter.
\<close>

definition key_map :: "(string \<Rightarrow> nat) \<Rightarrow> (string \<times> nat) list" where
  "key_map KEY =
     [(''TAB'', KEY ''TAB''),
      (''LEFT_ARROW'', KEY ''LEFT_ARROW''),
      (''RIGHT_ARROW'', KEY ''RIGHT_ARROW''),
      (''UP_ARROW'', KEY ''UP_ARROW''),
      (''DOWN_ARROW'', KEY ''DOWN_ARROW''),
      (''HOME'', KEY ''HOME''),
      (''END'', KEY ''END''),
      (''INSERT'', KEY ''INSERT''),
      (''DEL'', KEY ''DELETE''),
      (''BACK_SPACE'', KEY ''BACKSPACE''),
      (''RET'', KEY ''ENTER''),
      (''ESC'', KEY ''ESCAPE''),
      (''PAGE_UP'', KEY ''PAGE_UP''),
      (''PAGE_DOWN'', KEY ''PAGE_DOWN''),
      (''A'', KEY ''A''),
      (''C'', KEY ''C''),
      (''V'', KEY ''V''),
      (''X'', KEY ''X''),
      (''Y'', KEY ''Y''),
      (''Z'', KEY ''Z''),
      (''LEFT_CTRL'', 128 + 1),
      (''RIGHT_CTRL'', 128 + 2),
      (''LEFT_ALT'', 128 + 3),
      (''RIGHT_ALT'', 128 + 4),
      (''LEFT_SHIFT'', 128 + 5),
      (''RIGHT_SHIFT'', 128 + 6),
      (''OSKEY'', 128 + 7)]"

text \<open>\<^verbatim>\<open>self.key_map[name]\<close> for a name that is a key of the map.\<close>

definition key_slot :: "(string \<Rightarrow> nat) \<Rightarrow> string \<Rightarrow> nat" where
  "key_slot KEY name = the (map_of (key_map KEY) name)"

definition add_input_character :: "nat \<Rightarrow> imgui_io \<Rightarrow> imgui_io" where
  "add_input_character c io = io\<lparr>input_characters := input_characters io @ [c]\<rparr>"

text \<open>
  \<^verbatim>\<open>modal_imgui\<close> is five blocks in sequence, each a function here: the pointer position, the
  chain of \<^verbatim>\<open>if\<close> and \<^verbatim>\<open>elif\<close> on the mouse buttons and the wheel, the key state, the four
  modifier flags, and the text input. \<^verbatim>\<open>ord\<close> raises \<^verbatim>\<open>TypeError\<close> on a string that is not
  one character long.
\<close>

definition set_mouse_pos :: "'x bpy_context \<Rightarrow> event \<Rightarrow> imgui_io \<Rightarrow> imgui_io" where
  "set_mouse_pos context event io =
     io\<lparr>mouse_pos := (mouse_region_x event, region_height context - 1 - mouse_region_y event)\<rparr>"

definition mouse_buttons :: "event \<Rightarrow> imgui_io \<Rightarrow> imgui_io" where
  "mouse_buttons event io =
     (if ev_type event = ''LEFTMOUSE''
        then io\<lparr>mouse_down := (mouse_down io)(0 := (ev_value event = ''PRESS''))\<rparr>
      else if ev_type event = ''RIGHTMOUSE''
        then io\<lparr>mouse_down := (mouse_down io)(1 := (ev_value event = ''PRESS''))\<rparr>
      else if ev_type event = ''MIDDLEMOUSE''
        then io\<lparr>mouse_down := (mouse_down io)(2 := (ev_value event = ''PRESS''))\<rparr>
      else if ev_type event = ''WHEELUPMOUSE'' then io\<lparr>mouse_wheel := - 1\<rparr>
      else if ev_type event = ''WHEELUPDOWN'' then io\<lparr>mouse_wheel := 1\<rparr>
      else io)"

definition key_state :: "(string \<Rightarrow> nat) \<Rightarrow> event \<Rightarrow> imgui_io \<Rightarrow> imgui_io" where
  "key_state KEY event io =
     (case map_of (key_map KEY) (ev_type event) of
        None \<Rightarrow> io
      | Some k \<Rightarrow>
          if ev_value event = ''PRESS'' then io\<lparr>keys_down := (keys_down io)(k := True)\<rparr>
          else if ev_value event = ''RELEASE''
            then io\<lparr>keys_down := (keys_down io)(k := False)\<rparr>
          else io)"

definition modifier_flags :: "(string \<Rightarrow> nat) \<Rightarrow> imgui_io \<Rightarrow> imgui_io" where
  "modifier_flags KEY io =
     io\<lparr>key_ctrl :=
          keys_down io (key_slot KEY ''LEFT_CTRL'') \<or> keys_down io (key_slot KEY ''RIGHT_CTRL''),
        key_alt :=
          keys_down io (key_slot KEY ''LEFT_ALT'') \<or> keys_down io (key_slot KEY ''RIGHT_ALT''),
        key_shift :=
          keys_down io (key_slot KEY ''LEFT_SHIFT'')
          \<or> keys_down io (key_slot KEY ''RIGHT_SHIFT''),
        key_super := keys_down io (key_slot KEY ''OSKEY'')\<rparr>"

definition text_input :: "event \<Rightarrow> imgui_io \<Rightarrow> py_error option \<times> imgui_io" where
  "text_input event io =
     (if unicode event \<noteq> []
        then (case unicode event of
                [char] \<Rightarrow>
                  (None, if 0 < char \<and> char < 0x10000 then add_input_character char io else io)
              | _ \<Rightarrow> (Some TypeError, io))
        else (None, io))"

definition modal_imgui ::
  "(string \<Rightarrow> nat) \<Rightarrow> 'x bpy_context \<Rightarrow> event \<Rightarrow> imgui_io \<Rightarrow> py_error option \<times> imgui_io" where
  "modal_imgui KEY context event io =
     text_input event
       (modifier_flags KEY
          (key_state KEY event (mouse_buttons event (set_mouse_pos context event io))))"

text \<open>A sequence of events, each with the context it came with, from the first on. An
  event that raised is followed by the next event on the state it left.\<close>

fun modal_imgui_all ::
  "(string \<Rightarrow> nat) \<Rightarrow> ('x bpy_context \<times> event) list \<Rightarrow> imgui_io \<Rightarrow> imgui_io" where
  "modal_imgui_all KEY [] io = io"
| "modal_imgui_all KEY ((context, event) # rest) io =
     modal_imgui_all KEY rest (snd (modal_imgui KEY context event io))"


section \<open>Sample inputs\<close>

definition gpu0 :: "nat gpu" where
  "gpu0 = \<lparr>blend = ''NONE'', face_culling = ''BACK'', scissor_test = False,
           viewport = (0, 0, 1920, 1080), scissor = (0, 0, 0, 0), calls = []\<rparr>"

definition io0 :: imgui_io where
  "io0 = \<lparr>display_size = (100, 100), display_fb_scale = (1, 1), mouse_pos = (0, 0),
          mouse_down = (\<lambda>i. False), mouse_wheel = 0, keys_down = (\<lambda>i. False),
          key_ctrl = False, key_alt = False, key_shift = False, key_super = False,
          input_characters = []\<rparr>"

text \<open>One command list with three vertices and one command of three indices.\<close>

definition triangle :: "vec4 \<Rightarrow> nat draw_data" where
  "triangle r =
     \<lparr>commands_lists =
        [\<lparr>idx_buffer_size = 3, idx_buffer_data = [0, 1, 2], vtx_buffer_size = 3,
          vtx_buffer_data =
            [\<lparr>pos = (0, 0), uv = (0, 0), col = [255, 255, 255, 255]\<rparr>,
             \<lparr>pos = (10, 0), uv = (1, 0), col = [255, 255, 255, 255]\<rparr>,
             \<lparr>pos = (0, 10), uv = (0, 1), col = [255, 0, 0, 255]\<rparr>],
          commands = [\<lparr>clip_rect = r, elem_count = 3, texture_id = 1\<rparr>]\<rparr>]\<rparr>"

definition key_event :: "string \<Rightarrow> string \<Rightarrow> unit bpy_context \<times> event" where
  "key_event t v =
     (\<lparr>region_width = 100, region_height = 100, ui_scale = 1, ident = ()\<rparr>,
      \<lparr>ev_type = t, ev_value = v, mouse_region_x = 0, mouse_region_y = 0, unicode = []\<rparr>)"

section \<open>The modifier keys of the keyboard\<close>













section \<open>Properties of the registry\<close>

subsection \<open>Dictionaries and host calls\<close>

lemma update_fresh: "k \<notin> fst ` set al \<Longrightarrow> AList.update k v al = al @ [(k, v)]"
  by (induction al) auto

lemma update_above:
  "\<forall>e\<in>set al. 0 \<le> fst e \<and> fst e < (n::int) \<Longrightarrow> AList.update n v al = al @ [(n, v)]"
  by (rule update_fresh) auto

lemma set_delete_subset: "set (AList.delete k al) \<subseteq> set al"
  by (induction al) auto

lemma sorted_delete:
  "sorted_wrt (<) (map fst al) \<Longrightarrow> sorted_wrt (<) (map fst (AList.delete k al))"
  using set_delete_subset[of k] by (induction al) auto

lemma installed_remove_handlers:
  "installed (remove_handlers dh h) = filter (\<lambda>e. e \<notin> set dh) (installed h)"
  by (induction dh h rule: remove_handlers.induct)
     (auto simp: draw_handler_remove_def removeAll_filter_not_eq intro: filter_cong)

lemma contexts_remove_handlers: "contexts (remove_handlers dh h) = contexts h"
  by (induction dh h rule: remove_handlers.induct) (auto simp: draw_handler_remove_def)

subsection \<open>The invariant\<close>

lemma registry_inv_start: "registry_inv start"
  by (simp add: registry_inv_def start_def new_GlobalImgui_def new_host_def registrations_def)

lemma registry_inv_handler_add: "registry_inv w \<Longrightarrow> registry_inv (snd (handler_add cb sp w))"
  by (cases w)
     (auto simp: registry_inv_def handler_add_def init_imgui_def create_context_def
        draw_handler_add_def update_fresh update_above registrations_def list_all_iff
        sorted_wrt_append
      split: option.splits prod.splits if_splits)

lemma registry_inv_handler_remove: "registry_inv w \<Longrightarrow> registry_inv (snd (handler_remove k w))"
  using set_delete_subset[of k]
  by (cases w)
     (auto simp: registry_inv_def handler_remove_def shutdown_imgui_def print_invalid_def
        destroy_context_def registrations_def list_all_iff sorted_delete
        installed_remove_handlers
      split: option.splits prod.splits if_splits)

lemma snd_step:
  "snd (step (Handler_add cb sp) w) = snd (handler_add cb sp w)"
  "snd (step (Handler_remove k) w) = snd (handler_remove k w)"
  by (simp_all add: step_def split: prod.splits sum.splits option.splits)

lemma fst_exec_Cons: "fst (exec w (c # cs)) = fst (step c w) # fst (exec (snd (step c w)) cs)"
  by (simp split: prod.splits)

lemma snd_exec_Cons: "snd (exec w (c # cs)) = snd (exec (snd (step c w)) cs)"
  by (simp split: prod.splits)

lemma registry_inv_step: "registry_inv w \<Longrightarrow> registry_inv (snd (step c w))"
  by (cases c) (simp_all add: snd_step registry_inv_handler_add registry_inv_handler_remove)

lemma registry_inv_exec: "registry_inv w \<Longrightarrow> registry_inv (snd (exec w cs))"
proof (induction cs arbitrary: w)
  case Nil
  then show ?case by simp
next
  case (Cons c cs)
  from Cons.prems have "registry_inv (snd (step c w))" by (rule registry_inv_step)
  then have "registry_inv (snd (exec (snd (step c w)) cs))" by (rule Cons.IH)
  then show ?case by (simp only: snd_exec_Cons)
qed

lemma registry_inv_reachable: "registry_inv (snd (exec start cs))"
  by (rule registry_inv_exec) (rule registry_inv_start)

subsection \<open>Handles\<close>

lemma step_add_inv:
  assumes "registry_inv w"
  shows "fst (step (Handler_add cb sp) w) = Handle (next_handle (fst w))"
    and "imgui_ctx (fst (snd (step (Handler_add cb sp) w))) \<noteq> None"
    and "next_handle (fst (snd (step (Handler_add cb sp) w))) = next_handle (fst w) + 1"
  using assms
  by (cases w; auto simp: registry_inv_def step_def handler_add_def init_imgui_def
      create_context_def draw_handler_add_def next_handle_def
      split: option.splits prod.splits if_splits)+

lemma step_remove_inv:
  assumes "registry_inv w" and "imgui_ctx (fst (snd (step (Handler_remove k) w))) \<noteq> None"
  shows "handles [fst (step (Handler_remove k) w)] = []"
    and "next_handle (fst (snd (step (Handler_remove k) w))) = next_handle (fst w)"
  using assms
  by (cases w; auto simp: registry_inv_def step_def handler_remove_def shutdown_imgui_def
      print_invalid_def next_handle_def registrations_def
      split: option.splits prod.splits if_splits)+

lemma map_upt_shift: "map f [0..<Suc k] = f 0 # map (\<lambda>i. f (Suc i)) [0..<k]"
  by (simp add: upt_conv_Cons map_Suc_upt[symmetric] del: upt_Suc)

lemma handles_active:
  "registry_inv w \<Longrightarrow> stays_active w cs \<Longrightarrow>
   handles (fst (exec w cs)) = map (\<lambda>i. next_handle (fst w) + int i) [0..<registers cs]"
proof (induction cs arbitrary: w)
  case Nil
  then show ?case by simp
next
  case (Cons c cs)
  let ?w = "snd (step c w)"
  have inv': "registry_inv ?w" using Cons.prems(1) by (rule registry_inv_step)
  have act: "stays_active ?w cs" and ctx: "imgui_ctx (fst ?w) \<noteq> None"
    using Cons.prems(2) by (auto split: prod.splits)
  have IH: "handles (fst (exec ?w cs))
              = map (\<lambda>i. next_handle (fst ?w) + int i) [0..<registers cs]"
    using inv' act by (rule Cons.IH)
  show ?case
  proof (cases c)
    case (Handler_add cb sp)
    have "handles (fst (exec w (c # cs))) = next_handle (fst w) # handles (fst (exec ?w cs))"
      using step_add_inv(1)[OF Cons.prems(1), of cb sp] Handler_add
      by (auto split: prod.splits)
    then show ?thesis
      using IH step_add_inv(3)[OF Cons.prems(1), of cb sp] Handler_add
      by (simp add: map_upt_shift del: upt_Suc)
  next
    case (Handler_remove k)
    have "handles (fst (exec w (c # cs))) = handles (fst (exec ?w cs))"
      using step_remove_inv(1)[OF Cons.prems(1), of k] ctx Handler_remove
      by (cases "fst (step c w)") (auto split: prod.splits)
    then show ?thesis
      using IH step_remove_inv(2)[OF Cons.prems(1), of k] ctx Handler_remove
      by simp
  qed
qed

text \<open>
  Claim C1, as the spec states it, fails on the code: \<^verbatim>\<open>init_imgui\<close> sets
  \<^verbatim>\<open>next_callback_id\<close> back to 0, so the first registration after a teardown gets
  handle 0 again. Register, unregister handle 0 (which empties the registration set and
  shuts the context down), register again: both registrations returned 0.
\<close>

theorem handle_reused_after_teardown:
  "handles (fst (exec (start :: (nat, nat) process)
       [Handler_add 0 0, Handler_remove 0, Handler_add 1 0])) = [0, 0]
   \<and> \<not> distinct (handles (fst (exec (start :: (nat, nat) process)
       [Handler_add 0 0, Handler_remove 0, Handler_add 1 0])))"
  by code_simp

text \<open>
  Claim C1, amended: after any sequence of calls, as long as the GUI context stays alive
  (no call empties the registration set), the handles that the registrations return are
  \<open>n, n + 1, n + 2, ...\<close> in order, where \<open>n\<close> is the counter, and 0 when the context does not
  exist at the beginning (in a new process and after every teardown). So within one
  period of activity every registration succeeds, and the handles are unique, strictly
  increasing from 0 and not reused after a removal; a teardown starts them from 0 again.
\<close>

theorem handles_increase_within_activity:
  "stays_active (snd (exec start pre)) cs \<Longrightarrow>
     handles (fst (exec (snd (exec start pre)) cs))
       = map (\<lambda>i. next_handle (fst (snd (exec start pre))) + int i) [0..<registers cs]
     \<and> sorted_wrt (<) (handles (fst (exec (snd (exec start pre)) cs)))
     \<and> distinct (handles (fst (exec (snd (exec start pre)) cs)))"
proof -
  assume a: "stays_active (snd (exec start pre)) cs"
  have e: "handles (fst (exec (snd (exec start pre)) cs))
       = map (\<lambda>i. next_handle (fst (snd (exec start pre))) + int i) [0..<registers cs]"
    using registry_inv_reachable a by (rule handles_active)
  have s: "sorted_wrt (<) (map (\<lambda>i. n + int i) [0..<k])" for n k
    by (simp add: sorted_wrt_map sorted_wrt_iff_nth_less)
  have d: "distinct (map (\<lambda>i. n + int i) [0..<k])" for n k
    by (simp add: distinct_map inj_on_def)
  show ?thesis using e s d by simp
qed

theorem handles_increase_within_activity_witness:
  "stays_active (snd (exec (start :: (nat, nat) process) [Handler_add 0 0, Handler_remove 0]))
     [Handler_add 1 0, Handler_add 2 1, Handler_remove 1, Handler_add 3 0]
   \<and> handles (fst (exec (snd (exec (start :: (nat, nat) process)
         [Handler_add 0 0, Handler_remove 0]))
         [Handler_add 1 0, Handler_add 2 1, Handler_remove 1, Handler_add 3 0])) = [0, 1, 2]"
proof -
  have a: "stays_active (snd (exec (start :: (nat, nat) process) [Handler_add 0 0, Handler_remove 0]))
     [Handler_add 1 0, Handler_add 2 1, Handler_remove 1, Handler_add 3 0]"
    by code_simp
  have n: "next_handle (fst (snd (exec (start :: (nat, nat) process)
      [Handler_add 0 0, Handler_remove 0]))) = 0"
    by code_simp
  have u: "[0..<Suc (Suc (Suc 0))] = [0, Suc 0, Suc (Suc 0)]"
    by (simp add: upt_rec)
  show ?thesis
    using handles_increase_within_activity[OF a] a n u by simp
qed

subsection \<open>The context and the registration set\<close>

text \<open>
  Claim C2: after every sequence of \<^verbatim>\<open>handler_add\<close> and \<^verbatim>\<open>handler_remove\<close> calls on a new
  process (so after each call of any such sequence), the GUI context exists, that is
  \<^verbatim>\<open>imgui_ctx\<close> is not \<open>None\<close>, if and only if the registration set is not empty.
\<close>

theorem context_exists_iff_registered:
  "(imgui_ctx (fst (snd (exec start cs))) \<noteq> None)
     = (registrations (fst (snd (exec start cs))) \<noteq> [])"
  using registry_inv_reachable[of cs]
  by (cases "snd (exec start cs)")
     (auto simp: registry_inv_def registrations_def split: option.splits)

subsection \<open>Teardown\<close>

lemma teardown_inv:
  assumes "registry_inv (g, h)" and "registrations g = [(k, v)]"
  shows "\<exists>c dh n. imgui_ctx g = Some c \<and> draw_handlers g = Some dh \<and> dh \<noteq> []
          \<and> installed h = dh \<and> next_callback_id g = Some n \<and> 0 < n
          \<and> callbacks g = Some [(k, v)]"
  using assms
  by (auto simp: registry_inv_def registrations_def split: option.splits)

text \<open>
  Claim C3, as the spec states it, fails on the code: \<^verbatim>\<open>shutdown_imgui\<close> removes the
  installed handlers from the host and destroys the context, but it leaves the attributes
  \<^verbatim>\<open>draw_handlers\<close> and \<^verbatim>\<open>next_callback_id\<close> as they are. After one registration and its
  removal, the map of draw handlers still has its entry and the counter is still 1.
\<close>

theorem teardown_keeps_handler_map_and_counter:
  "(case handler_remove 0 (snd (exec (start :: (nat, nat) process) [Handler_add 5 7])) of
      (r, (g', h')) \<Rightarrow>
        registrations g' = [] \<and> draw_handlers g' = Some [(7, 0)]
        \<and> next_callback_id g' = Some 1)"
  by code_simp

text \<open>
  Claim C3, amended: when \<^verbatim>\<open>handler_remove\<close> removes the last registration, the call
  returns normally, every installed draw handler is removed from the host, the GUI
  context is destroyed and \<^verbatim>\<open>imgui_ctx\<close> is \<open>None\<close>, and the callback map is empty. The map
  of draw handlers and the handle counter keep the values they had (a non-empty map, a
  counter above 0); they are reset by the \<^verbatim>\<open>init_imgui\<close> of the next registration.
\<close>

theorem last_unregister_tears_down:
  "registrations (fst (snd (exec start cs))) = [(k, v)] \<Longrightarrow>
   (case snd (exec start cs) of (g, h) \<Rightarrow>
      (case handler_remove k (g, h) of (r, (g', h')) \<Rightarrow>
         r = None \<and> installed h' = [] \<and> imgui_ctx g' = None
         \<and> (\<exists>c. imgui_ctx g = Some c \<and> c \<notin> set (contexts h'))
         \<and> callbacks g' = Some []
         \<and> draw_handlers g' = draw_handlers g \<and> draw_handlers g' \<noteq> Some []
         \<and> draw_handlers g' \<noteq> None
         \<and> next_callback_id g' = next_callback_id g \<and> next_callback_id g' \<noteq> Some 0
         \<and> next_callback_id g' \<noteq> None))"
proof -
  assume a: "registrations (fst (snd (exec start cs))) = [(k, v)]"
  obtain g h where w: "snd (exec start cs) = (g, h)" by (cases "snd (exec start cs)")
  have "registry_inv (g, h)" using registry_inv_reachable[of cs] w by simp
  moreover have "registrations g = [(k, v)]" using a w by simp
  ultimately obtain c dh n where f: "imgui_ctx g = Some c" "draw_handlers g = Some dh"
    "dh \<noteq> []" "installed h = dh" "next_callback_id g = Some n" "0 < n"
    "callbacks g = Some [(k, v)]"
    using teardown_inv by blast
  show ?thesis
    using f by (simp add: w handler_remove_def shutdown_imgui_def destroy_context_def
        installed_remove_handlers contexts_remove_handlers)
qed

theorem last_unregister_tears_down_witness:
  "registrations (fst (snd (exec (start :: (nat, nat) process) [Handler_add 5 7])))
     = [(0, (5, 7))] \<and>
   (case snd (exec (start :: (nat, nat) process) [Handler_add 5 7]) of (g, h) \<Rightarrow>
      (case handler_remove 0 (g, h) of (r, (g', h')) \<Rightarrow>
         r = None \<and> installed h' = [] \<and> imgui_ctx g' = None
         \<and> callbacks g' = Some [] \<and> draw_handlers g' = Some [(7, 0)]
         \<and> next_callback_id g' = Some 1))"
proof -
  have r: "registrations (fst (snd (exec (start :: (nat, nat) process) [Handler_add 5 7])))
             = [(0, (5, 7))]"
    by code_simp
  have d: "draw_handlers (fst (snd (exec (start :: (nat, nat) process) [Handler_add 5 7])))
             = Some [(7, 0)]"
    by code_simp
  have n: "next_callback_id (fst (snd (exec (start :: (nat, nat) process) [Handler_add 5 7])))
             = Some 1"
    by code_simp
  show ?thesis
    using last_unregister_tears_down[OF r] r d n
    by (auto split: prod.splits)
qed

subsection \<open>Unknown handles\<close>

text \<open>
  Once \<^verbatim>\<open>init_imgui\<close> has run, the attribute \<^verbatim>\<open>callbacks\<close> exists, and \<^verbatim>\<open>handler_remove\<close>
  with a handle that is not a key prints its message, returns, and changes nothing of
  the registry or of the host but the console.
\<close>

lemma handler_remove_unknown:
  "callbacks g = Some cbs \<Longrightarrow> handle \<notin> fst ` set cbs \<Longrightarrow>
   handler_remove handle (g, h)
     = (None, (g, h\<lparr>printed := printed h @ [Invalid_handle handle]\<rparr>))"
  by (simp add: handler_remove_def print_invalid_def)

text \<open>
  Claim C4 fails on the code in one state: in a new process, before the first
  registration, \<^verbatim>\<open>__init__\<close> has created \<^verbatim>\<open>imgui_ctx\<close> only, and \<^verbatim>\<open>handler_remove\<close> reads
  \<^verbatim>\<open>self.callbacks\<close>. The call raises \<^verbatim>\<open>AttributeError\<close> where the claim has it print its
  message and return. The process is left unchanged.
\<close>

theorem unregister_before_init_raises:
  "handler_remove handle (start :: ('cb, 'sp) process) = (Some AttributeError, start)"
  by (simp add: handler_remove_def start_def new_GlobalImgui_def)

subsection \<open>Dispatch\<close>

lemma invoked_draw_callbacks:
  "invoked (draw_callbacks vs cur ctx) = map (\<lambda>v. (fst v, ctx)) (filter (\<lambda>v. snd v = cur) vs)"
  by (induction vs cur ctx rule: draw_callbacks.induct) auto

lemma invoked_append: "invoked (xs @ ys) = invoked xs @ invoked ys"
  by (induction xs rule: invoked.induct) auto

lemma invoked_draw:
  "invoked (snd (draw g cur ctx))
     = map (\<lambda>r. (fst (snd r), ctx)) (filter (\<lambda>r. snd (snd r) = cur) (registrations g))"
  by (simp add: draw_def registrations_def Let_def invoked_append invoked_draw_callbacks
      filter_map comp_def split: option.splits)

lemma handler_add_inv:
  assumes "registry_inv w"
  shows "registrations (fst (snd (handler_add cb sp w)))
           = registrations (fst w) @ [(next_handle (fst w), (cb, sp))]"
    and "imgui_backend (fst (snd (handler_add cb sp w))) \<noteq> None"
    and "callbacks (fst (snd (handler_add cb sp w))) \<noteq> None"
  using assms
  by (cases w; auto simp: registry_inv_def handler_add_def init_imgui_def create_context_def
      draw_handler_add_def next_handle_def registrations_def update_above list_all_iff
      split: option.splits prod.splits if_splits)+

text \<open>
  Claim C7. A dispatch for a space type invokes, once for each registration of that
  space type and in the order of the registration map, the registered callback with the
  host context as its argument, and no callback of another space type. After any
  sequence of calls the order of the map is the order of the handles, and a further
  registration of \<open>cb\<close> for \<open>sp\<close> adds exactly one invocation of \<open>cb\<close>, behind the others,
  to a dispatch for \<open>sp\<close> and nothing to a dispatch for another space type; the dispatch
  returns normally.
\<close>

theorem dispatch_round_trip:
  "invoked (snd (draw g cur ctx))
     = map (\<lambda>r. (fst (snd r), ctx)) (filter (\<lambda>r. snd (snd r) = cur) (registrations g))
   \<and> sorted_wrt (<) (map fst (registrations (fst (snd (exec start cs)))))
   \<and> fst (draw (fst (snd (handler_add cb sp (snd (exec start cs))))) cur ctx) = None
   \<and> invoked (snd (draw (fst (snd (handler_add cb sp (snd (exec start cs))))) cur ctx))
       = invoked (snd (draw (fst (snd (exec start cs))) cur ctx))
         @ (if cur = sp then [(cb, ctx)] else [])"
proof -
  have inv: "registry_inv (snd (exec start cs))" by (rule registry_inv_reachable)
  have s: "sorted_wrt (<) (map fst (registrations (fst (snd (exec start cs)))))"
    using inv by (cases "snd (exec start cs)")
      (auto simp: registry_inv_def registrations_def split: option.splits)
  have ok: "fst (draw (fst (snd (handler_add cb sp (snd (exec start cs))))) cur ctx) = None"
    using handler_add_inv(2,3)[OF inv, of cb sp]
    by (auto simp: draw_def Let_def split: option.splits)
  show ?thesis
    using s ok by (simp add: invoked_draw handler_add_inv(1)[OF inv])
qed

section \<open>Properties of the draw translator\<close>

subsection \<open>The calls of the loops\<close>

lemma calls_render_commands:
  "calls (render_commands fbh idx vtx cmds off g) = calls g @ commands_calls fbh idx vtx cmds off"
  by (induction cmds arbitrary: off g)
     (auto simp: scissor_set_def host_call_def scissor_rect_def Let_def split: prod.splits)

lemma state_render_commands:
  "blend (render_commands fbh idx vtx cmds off g) = blend g"
  "face_culling (render_commands fbh idx vtx cmds off g) = face_culling g"
  "scissor_test (render_commands fbh idx vtx cmds off g) = scissor_test g"
  "viewport (render_commands fbh idx vtx cmds off g) = viewport g"
  by (induction cmds arbitrary: off g;
      simp add: scissor_set_def host_call_def Let_def split: prod.splits)+

lemma calls_render_lists:
  "calls (render_lists IS fbh cls g) = calls g @ lists_calls IS fbh cls"
  by (induction cls arbitrary: g) (auto simp: calls_render_commands)

lemma state_render_lists:
  "blend (render_lists IS fbh cls g) = blend g"
  "face_culling (render_lists IS fbh cls g) = face_culling g"
  "scissor_test (render_lists IS fbh cls g) = scissor_test g"
  "viewport (render_lists IS fbh cls g) = viewport g"
  by (induction cls arbitrary: g; simp add: state_render_commands)+

lemma emitted_render:
  assumes "fb_width io \<noteq> 0" and "fb_height io \<noteq> 0"
  shows "emitted g (render IS io dd g)
           = prologue io
             @ lists_calls IS (fb_height io)
                 (commands_lists (scale_clip_rects (fst (display_fb_scale io))
                    (snd (display_fb_scale io)) dd))
             @ [Blend_set (blend g), Scissor_test_set False]"
  using assms
  by (simp add: emitted_def render_def Let_def prologue_def blend_set_def blend_get_def
      face_culling_set_def scissor_test_set_def viewport_set_def host_call_def
      calls_render_lists state_render_lists split: prod.splits)

lemma emitted_render_degenerate:
  "fb_width io = 0 \<or> fb_height io = 0 \<Longrightarrow> emitted g (render IS io dd g) = []"
  by (auto simp: emitted_def render_def split: prod.splits)

lemma state_render:
  assumes "fb_width io \<noteq> 0" and "fb_height io \<noteq> 0"
  shows "blend (render IS io dd g) = blend g"
    and "scissor_test (render IS io dd g) = False"
    and "face_culling (render IS io dd g) = ''NONE''"
    and "viewport (render IS io dd g) = (0, 0, fb_width io, fb_height io)"
  using assms
  by (simp_all add: render_def Let_def blend_set_def blend_get_def
      face_culling_set_def scissor_test_set_def viewport_set_def host_call_def
      state_render_lists split: prod.splits)

subsection \<open>The batches drawn\<close>

lemma draws_append: "draws (xs @ ys) = draws xs @ draws ys"
  by (induction xs rule: draws.induct) auto

lemma draws_commands_calls:
  "draws (commands_calls fbh idx vtx cmds off)
     = map (\<lambda>i. \<lparr>b_type = ''TRIS'', b_position = map pos vtx, b_uv = map uv vtx,
                   b_color = map vertex_color vtx,
                   b_indices = take (elem_count (cmds ! i))
                     (drop (off + sum_list (map elem_count (take i cmds))) idx)\<rparr>)
           [0..<length cmds]"
proof (induction cmds arbitrary: off)
  case Nil
  then show ?case by simp
next
  case (Cons c cmds)
  show ?case
    by (simp add: draws_append Cons.IH map_upt_shift add.assoc del: upt_Suc split: prod.splits)
qed

lemma vtx_buffer_shaped_whole:
  "vtx_buffer_shaped cl = take (vtx_buffer_size cl) (vtx_buffer_data cl)"
  by (simp add: vtx_buffer_shaped_def VERTEX_SIZE_def)

lemma draws_lists_calls:
  "draws (lists_calls IS fbh cls)
     = concat (map (\<lambda>cl. map (whole_buffer_batch IS cl) [0..<length (commands cl)]) cls)"
  by (induction cls)
     (simp_all add: draws_append draws_commands_calls whole_buffer_batch_def index_slice_def
        vtx_buffer_shaped_whole)

lemma draws_render:
  assumes "fb_width io \<noteq> 0" and "fb_height io \<noteq> 0"
  shows "draws (emitted g (render IS io dd g))
     = concat (map (\<lambda>cl. map (whole_buffer_batch IS cl) [0..<length (commands cl)])
         (commands_lists (scale_clip_rects (fst (display_fb_scale io))
            (snd (display_fb_scale io)) dd)))"
  by (simp add: emitted_render[OF assms] prologue_def draws_append draws_lists_calls)

lemma whole_buffer_batch_scaled:
  "i < length (commands cl) \<Longrightarrow>
   whole_buffer_batch IS
     (cl\<lparr>commands := map (\<lambda>c. c\<lparr>clip_rect := f (clip_rect c)\<rparr>) (commands cl)\<rparr>) i
     = whole_buffer_batch IS cl i"
  by (simp add: whole_buffer_batch_def index_slice_def idx_buffer_np_def take_map comp_def)

lemma draws_render_unscaled:
  assumes "fb_width io \<noteq> 0" and "fb_height io \<noteq> 0"
  shows "draws (emitted g (render IS io dd g))
     = concat (map (\<lambda>cl. map (whole_buffer_batch IS cl) [0..<length (commands cl)])
         (commands_lists dd))"
proof -
  have h: "map (whole_buffer_batch IS
               (cl\<lparr>commands := map (\<lambda>c. c\<lparr>clip_rect := f (clip_rect c)\<rparr>) (commands cl)\<rparr>))
            [0..<length (commands cl)]
          = map (whole_buffer_batch IS cl) [0..<length (commands cl)]"
    for cl :: "'a cmd_list" and f
    by (rule map_cong) (simp_all add: whole_buffer_batch_scaled)
  show ?thesis
    by (simp add: draws_render[OF assms] scale_clip_rects_def comp_def h)
qed

lemma slices_contiguous:
  "concat (map (index_slice idx cmds) [0..<length cmds])
     = take (sum_list (map elem_count cmds)) idx"
proof (induction cmds rule: rev_induct)
  case Nil
  then show ?case by simp
next
  case (snoc c cmds)
  have a: "map (index_slice idx (cmds @ [c])) [0..<length cmds]
          = map (index_slice idx cmds) [0..<length cmds]"
    by (simp add: index_slice_def nth_append)
  have b: "index_slice idx (cmds @ [c]) (length cmds)
          = take (elem_count c) (drop (sum_list (map elem_count cmds)) idx)"
    by (simp add: index_slice_def)
  have "concat (map (index_slice idx (cmds @ [c])) [0..<length (cmds @ [c])])
          = concat (map (index_slice idx (cmds @ [c])) [0..<length cmds])
            @ index_slice idx (cmds @ [c]) (length cmds)"
    by simp
  also have "\<dots> = take (sum_list (map elem_count cmds)) idx
                  @ take (elem_count c) (drop (sum_list (map elem_count cmds)) idx)"
    by (simp only: a b snoc.IH)
  also have "\<dots> = take (sum_list (map elem_count (cmds @ [c]))) idx"
    by (simp add: take_add)
  finally show ?case .
qed

subsection \<open>The scissor rectangles\<close>

lemma scissor_commands_calls:
  "scissor_at_draws cur (commands_calls fbh idx vtx cmds off @ ys)
     = map (\<lambda>c. scissor_rect fbh (clip_rect c)) cmds
       @ scissor_at_draws (last (cur # map (\<lambda>c. scissor_rect fbh (clip_rect c)) cmds)) ys"
  by (induction cmds arbitrary: cur off) (auto split: prod.splits)

lemma scissor_lists_calls:
  "(\<And>c. scissor_at_draws c ys = []) \<Longrightarrow>
   scissor_at_draws cur (lists_calls IS fbh cls @ ys)
     = map (scissor_rect fbh) (concat (map (\<lambda>cl. map clip_rect (commands cl)) cls))"
  by (induction cls arbitrary: cur) (simp_all add: scissor_commands_calls comp_def)

lemma scissor_render:
  assumes "fb_width io \<noteq> 0" and "fb_height io \<noteq> 0"
  shows "scissor_at_draws (scissor g) (emitted g (render IS io dd g))
     = map (scissor_rect (fb_height io))
         (clip_rects (scale_clip_rects (fst (display_fb_scale io))
            (snd (display_fb_scale io)) dd))"
  by (simp add: emitted_render[OF assms] prologue_def scissor_lists_calls clip_rects_def)

lemma inside_scissor: "inside fbw fbh r \<Longrightarrow> scissor_rect fbh r = spec_scissor fbw fbh r"
  by (cases r) (auto simp: inside_def spec_scissor_def max_def min_def)

lemmas eval_render =
  render_def io0_def triangle_def gpu0_def emitted_def py_int_def scale_clip_rects_def
  scale_rect_def fb_width_def fb_height_def blend_set_def blend_get_def face_culling_set_def
  scissor_test_set_def viewport_set_def scissor_set_def host_call_def idx_buffer_np_def
  vtx_buffer_shaped_def VERTEX_SIZE_def Let_def scissor_rect_def spec_scissor_def clip_rects_def
  inside_def

text \<open>
  Claim C5, as the spec states it, fails on the code: \<^verbatim>\<open>render\<close> passes the clip rectangle
  to \<^verbatim>\<open>scissor_set\<close> as it is and never intersects it with the framebuffer. On a framebuffer
  of 100 by 100 pixels, the clip rectangle \<open>(-10, -10, 50, 50)\<close> gives the scissor rectangle
  \<open>(-10, 50, 60, 60)\<close>, where the intersection with the framebuffer gives \<open>(0, 50, 50, 50)\<close>.
\<close>

theorem scissor_not_clamped:
  "scissor_at_draws (scissor gpu0)
       (emitted gpu0 (render 4 io0 (triangle (- 10, - 10, 50, 50)) gpu0))
     = [(- 10, 50, 60, 60)]
   \<and> map (spec_scissor (fb_width io0) (fb_height io0))
         (clip_rects (scale_clip_rects 1 1 (triangle (- 10, - 10, 50, 50))))
     = [(0, 50, 50, 50)]"
  by (simp add: eval_render)

text \<open>
  Claim C5, amended: in a \<^verbatim>\<open>render\<close> on a framebuffer that is not degenerate, for every
  command list and every draw command in order, the scissor rectangle in force at the
  draw call of the command is \<open>(int(x0), int(fbHeight - y1), int(x1 - x0), int(y1 - y0))\<close>
  of the command's scaled clip rectangle \<open>(x0, y0, x1, y1)\<close>. The rectangle is not
  intersected with the framebuffer; it is the intersected one whenever the clip rectangle
  lies inside the framebuffer. There are as many draw calls as clip rectangles.
\<close>

theorem scissor_per_draw:
  "fb_width io \<noteq> 0 \<Longrightarrow> fb_height io \<noteq> 0 \<Longrightarrow>
   scissor_at_draws (scissor g) (emitted g (render IS io dd g))
     = map (scissor_rect (fb_height io))
         (clip_rects (scale_clip_rects (fst (display_fb_scale io))
            (snd (display_fb_scale io)) dd))
   \<and> length (scissor_at_draws (scissor g) (emitted g (render IS io dd g)))
     = length (draws (emitted g (render IS io dd g)))
   \<and> (\<forall>r \<in> set (clip_rects (scale_clip_rects (fst (display_fb_scale io))
                   (snd (display_fb_scale io)) dd)).
        fst (snd (scissor_rect (fb_height io) r))
          = py_int (of_int (fb_height io) - snd (snd (snd r)))
        \<and> (inside (fb_width io) (fb_height io) r \<longrightarrow>
             scissor_rect (fb_height io) r = spec_scissor (fb_width io) (fb_height io) r))"
proof -
  assume a: "fb_width io \<noteq> 0" "fb_height io \<noteq> 0"
  have l: "length (draws (emitted g (render IS io dd g)))
             = length (clip_rects (scale_clip_rects (fst (display_fb_scale io))
                 (snd (display_fb_scale io)) dd))"
    by (simp add: draws_render[OF a] clip_rects_def length_concat comp_def)
  have f: "fst (snd (scissor_rect h r)) = py_int (of_int h - snd (snd (snd r)))" for h r
    by (cases r) (simp add: scissor_rect_def)
  show ?thesis
    using l by (auto simp: scissor_render[OF a] inside_scissor f)
qed

theorem scissor_per_draw_witness:
  "fb_width io0 \<noteq> 0 \<and> fb_height io0 \<noteq> 0
   \<and> inside (fb_width io0) (fb_height io0) (10, 20, 40, 50)
   \<and> scissor_at_draws (scissor gpu0)
         (emitted gpu0 (render 4 io0 (triangle (10, 20, 40, 50)) gpu0))
       = [(10, 50, 30, 30)]
   \<and> spec_scissor (fb_width io0) (fb_height io0) (10, 20, 40, 50) = (10, 50, 30, 30)"
proof -
  have a: "fb_width io0 \<noteq> 0" and b: "fb_height io0 \<noteq> 0"
    by (simp_all add: eval_render)
  have c: "clip_rects (scale_clip_rects (fst (display_fb_scale io0))
             (snd (display_fb_scale io0)) (triangle (10, 20, 40, 50))) = [(10, 20, 40, 50)]"
    by (simp add: eval_render)
  have i: "inside (fb_width io0) (fb_height io0) (10, 20, 40, 50)"
    by (simp add: eval_render)
  have v: "scissor_rect (fb_height io0) (10, 20, 40, 50) = (10, 50, 30, 30)"
    by (simp add: eval_render)
  show ?thesis
    using scissor_per_draw[OF a b, of gpu0 4 "triangle (10, 20, 40, 50)"] a b c i v
    by simp
qed

text \<open>
  Claim C6: for a snapshot with one command list, one draw command whose \<open>elem_count\<close> is
  3 and whose scaled clip rectangle lies inside the framebuffer, on a framebuffer that is
  not degenerate, \<^verbatim>\<open>render\<close> issues exactly one draw call, the draw call has exactly 3
  indices, and the scissor rectangle in force for it is the clip rectangle intersected
  with the framebuffer and turned over, with \<open>scissorY = int(fbHeight - y1)\<close>. The index array
  that the code reads is taken to hold the 3 indices, as it does when \<^verbatim>\<open>INDEX_SIZE\<close> is 4.
\<close>

theorem single_triangle:
  "commands_lists dd = [cl] \<Longrightarrow> commands cl = [c] \<Longrightarrow> elem_count c = 3 \<Longrightarrow>
   fb_width io \<noteq> 0 \<Longrightarrow> fb_height io \<noteq> 0 \<Longrightarrow>
   3 \<le> length (idx_buffer_np IS cl) \<Longrightarrow>
   inside (fb_width io) (fb_height io)
     (scale_rect (fst (display_fb_scale io)) (snd (display_fb_scale io)) (clip_rect c)) \<Longrightarrow>
   length (draws (emitted g (render IS io dd g))) = 1
   \<and> map (\<lambda>b. length (b_indices b)) (draws (emitted g (render IS io dd g))) = [3]
   \<and> scissor_at_draws (scissor g) (emitted g (render IS io dd g))
       = [spec_scissor (fb_width io) (fb_height io)
            (scale_rect (fst (display_fb_scale io)) (snd (display_fb_scale io)) (clip_rect c))]
   \<and> map (\<lambda>s. fst (snd s)) (scissor_at_draws (scissor g) (emitted g (render IS io dd g)))
       = [py_int (of_int (fb_height io)
            - snd (snd (snd (scale_rect (fst (display_fb_scale io))
                (snd (display_fb_scale io)) (clip_rect c)))))]"
proof -
  assume dd: "commands_lists dd = [cl]" and cl: "commands cl = [c]" and n: "elem_count c = 3"
    and a: "fb_width io \<noteq> 0" "fb_height io \<noteq> 0"
    and i: "3 \<le> length (idx_buffer_np IS cl)"
    and ins: "inside (fb_width io) (fb_height io)
      (scale_rect (fst (display_fb_scale io)) (snd (display_fb_scale io)) (clip_rect c))"
  have d: "draws (emitted g (render IS io dd g)) = [whole_buffer_batch IS cl 0]"
    by (simp add: draws_render_unscaled[OF a] dd cl)
  have s: "scissor_at_draws (scissor g) (emitted g (render IS io dd g))
       = [scissor_rect (fb_height io)
            (scale_rect (fst (display_fb_scale io)) (snd (display_fb_scale io)) (clip_rect c))]"
    by (simp add: scissor_render[OF a] clip_rects_def scale_clip_rects_def dd cl)
  show ?thesis
    using i by (simp add: d s inside_scissor[OF ins, symmetric] whole_buffer_batch_def
        index_slice_def cl n scissor_rect_def split: prod.splits)
qed

theorem single_triangle_witness:
  "fb_width io0 \<noteq> 0 \<and> fb_height io0 \<noteq> 0
   \<and> map b_indices (draws (emitted gpu0 (render 4 io0 (triangle (10, 20, 40, 50)) gpu0)))
       = [[0, 1, 2]]
   \<and> scissor_at_draws (scissor gpu0)
         (emitted gpu0 (render 4 io0 (triangle (10, 20, 40, 50)) gpu0))
       = [(10, 50, 30, 30)]"
proof -
  let ?cl = "hd (commands_lists (triangle (10, 20, 40, 50)))"
  let ?c = "hd (commands ?cl)"
  have a: "fb_width io0 \<noteq> 0" and b: "fb_height io0 \<noteq> 0"
    by (simp_all add: eval_render)
  have 1: "commands_lists (triangle (10, 20, 40, 50)) = [?cl]" by (simp add: triangle_def)
  have 2: "commands ?cl = [?c]" by (simp add: triangle_def)
  have 3: "elem_count ?c = 3" by (simp add: triangle_def)
  have 4: "3 \<le> length (idx_buffer_np 4 ?cl)" by (simp add: triangle_def idx_buffer_np_def)
  have 5: "inside (fb_width io0) (fb_height io0)
     (scale_rect (fst (display_fb_scale io0)) (snd (display_fb_scale io0)) (clip_rect ?c))"
    by (simp add: eval_render)
  have 6: "spec_scissor (fb_width io0) (fb_height io0)
     (scale_rect (fst (display_fb_scale io0)) (snd (display_fb_scale io0)) (clip_rect ?c))
       = (10, 50, 30, 30)"
    by (simp add: eval_render)
  have 7: "map b_indices (draws (emitted gpu0 (render 4 io0 (triangle (10, 20, 40, 50)) gpu0)))
       = [[0, 1, 2]]"
    by (simp add: eval_render)
  show ?thesis
    using single_triangle[OF 1 2 3 a b 4 5, of gpu0] a b 6 7 by simp
qed

text \<open>
  Claim C8, as the spec states it, fails on the code: \<^verbatim>\<open>render\<close> saves and restores the blend
  mode only. It sets face culling to \<^verbatim>\<open>'NONE'\<close> and the viewport to the framebuffer and leaves
  them so. From a host with face culling \<^verbatim>\<open>'BACK'\<close> and a viewport of 1920 by 1080, a render
  on a framebuffer of 100 by 100 returns with face culling \<^verbatim>\<open>'NONE'\<close> and the viewport
  \<open>(0, 0, 100, 100)\<close>.
\<close>

theorem culling_and_viewport_survive:
  "face_culling (render 4 io0 (triangle (10, 20, 40, 50)) gpu0) = ''NONE''
   \<and> face_culling gpu0 = ''BACK''
   \<and> viewport (render 4 io0 (triangle (10, 20, 40, 50)) gpu0) = (0, 0, 100, 100)
   \<and> viewport gpu0 = (0, 0, 1920, 1080)"
  by (simp add: eval_render)

text \<open>
  Claim C8, amended: after every \<^verbatim>\<open>render\<close> on a framebuffer that is not degenerate, the
  blend mode is the one the host had at entry and scissor testing is disabled. Face
  culling and the viewport are not restored: face culling is \<^verbatim>\<open>'NONE'\<close> and the viewport is
  \<open>(0, 0, fbWidth, fbHeight)\<close>, as \<^verbatim>\<open>render\<close> set them.
\<close>

theorem render_restores_blend_only:
  "fb_width io \<noteq> 0 \<Longrightarrow> fb_height io \<noteq> 0 \<Longrightarrow>
   blend (render IS io dd g) = blend g
   \<and> scissor_test (render IS io dd g) = False
   \<and> face_culling (render IS io dd g) = ''NONE''
   \<and> viewport (render IS io dd g) = (0, 0, fb_width io, fb_height io)"
  using state_render by blast

theorem render_restores_blend_only_witness:
  "fb_width io0 \<noteq> 0 \<and> fb_height io0 \<noteq> 0
   \<and> blend (render 4 io0 (triangle (10, 20, 40, 50)) gpu0) = ''NONE''
   \<and> scissor_test (render 4 io0 (triangle (10, 20, 40, 50)) gpu0) = False"
proof -
  have a: "fb_width io0 \<noteq> 0" and b: "fb_height io0 \<noteq> 0"
    by (simp_all add: eval_render)
  have c: "blend gpu0 = ''NONE''" by (simp add: gpu0_def)
  show ?thesis
    using render_restores_blend_only[OF a b, of 4 "triangle (10, 20, 40, 50)" gpu0] a b c
    by simp
qed

text \<open>
  Claim C10: in a \<^verbatim>\<open>render\<close> on a framebuffer that is not degenerate, the batches drawn
  are, for every command list in order and every command of it in order, the batch whose
  three vertex attribute arrays are made of the whole vertex buffer of the command list,
  whatever the command, and whose indices are the slice of \<open>elem_count\<close> indices from the
  offset that is the sum of the \<open>elem_count\<close> of the commands before it in that list. The
  slices of the commands of a list, one after the other, are the first indices of the
  index array, up to the sum of all \<open>elem_count\<close>: they are contiguous and do not overlap.
\<close>

theorem whole_buffer_per_draw:
  "fb_width io \<noteq> 0 \<Longrightarrow> fb_height io \<noteq> 0 \<Longrightarrow>
   draws (emitted g (render IS io dd g))
     = concat (map (\<lambda>cl. map (whole_buffer_batch IS cl) [0..<length (commands cl)])
         (commands_lists dd))
   \<and> concat (map (index_slice idx cmds) [0..<length cmds])
     = take (sum_list (map elem_count cmds)) idx"
  using draws_render_unscaled slices_contiguous by blast

theorem whole_buffer_per_draw_witness:
  "fb_width io0 \<noteq> 0 \<and> fb_height io0 \<noteq> 0
   \<and> map b_position (draws (emitted gpu0 (render 4 io0 (triangle (10, 20, 40, 50)) gpu0)))
       = [[(0, 0), (10, 0), (0, 10)]]"
proof -
  have a: "fb_width io0 \<noteq> 0" and b: "fb_height io0 \<noteq> 0"
    by (simp_all add: eval_render)
  have c: "map b_position
             (concat (map (\<lambda>cl. map (whole_buffer_batch 4 cl) [0..<length (commands cl)])
                (commands_lists (triangle (10, 20, 40, 50)))))
           = [[(0, 0), (10, 0), (0, 10)]]"
    by (simp add: triangle_def whole_buffer_batch_def)
  show ?thesis
    using whole_buffer_per_draw[OF a b, where g = gpu0 and IS = 4
        and dd = "triangle (10, 20, 40, 50)" and idx = "[]" and cmds = "[] :: nat draw_cmd list"]
      a b c
    by simp
qed

section \<open>Properties of the input translator\<close>

lemma key_slots:
  "key_slot KEY ''LEFT_CTRL'' = 129" "key_slot KEY ''RIGHT_CTRL'' = 130"
  "key_slot KEY ''LEFT_ALT'' = 131" "key_slot KEY ''RIGHT_ALT'' = 132"
  "key_slot KEY ''LEFT_SHIFT'' = 133" "key_slot KEY ''RIGHT_SHIFT'' = 134"
  "key_slot KEY ''OSKEY'' = 135"
  by (simp_all add: key_slot_def key_map_def)





subsection \<open>The key slots under presses and releases of the modifier keys\<close>












lemma modifiers_example:
  "key_ctrl (modal_imgui_all (\<lambda>n. 0)
     [key_event ''LEFT_CTRL'' ''PRESS'', key_event ''RIGHT_CTRL'' ''PRESS'',
      key_event ''LEFT_CTRL'' ''RELEASE''] io0)
   \<and> \<not> key_ctrl (modal_imgui_all (\<lambda>n. 0)
     [key_event ''LEFT_CTRL'' ''PRESS'', key_event ''RIGHT_CTRL'' ''PRESS'',
      key_event ''LEFT_CTRL'' ''RELEASE'', key_event ''RIGHT_CTRL'' ''RELEASE''] io0)"
  by (simp add: modal_imgui_def key_event_def io0_def key_map_def key_slots
      set_mouse_pos_def mouse_buttons_def key_state_def modifier_flags_def text_input_def)

end
